theory Spec2Isabelle
  imports Complex_Main "HOL-Library.Word"
begin

section \<open>VoiceNoteRecorder: a shallow embedding of the component's handlers\<close>

text \<open>
  The source is one React component, \<^verbatim>\<open>src/components/VoiceNoteRecorder.tsx\<close>.
  Its \<^verbatim>\<open>useState\<close> cells become the fields of a record, each handler becomes a
  function from the state at invocation to the state afterwards, and everything a
  handler does to the outside (alerts, console output, inserts into the remote store,
  calls into the recognition hook, the caller's callback, timers) is returned as a
  list of effects in program order.
\<close>

subsection \<open>Strings\<close>

text \<open>
  A JavaScript string is a sequence of UTF-16 code units. String literals of the
  source are ASCII and are written through \<open>js\<close>. A string is truthy exactly when it
  is not empty.
\<close>

type_synonym jsstring = "16 word list"

definition js :: "string \<Rightarrow> jsstring" where
  "js s = map of_char s"

text \<open>
  \<^verbatim>\<open>String.prototype.trim\<close> removes the leading and trailing code units that are
  WhiteSpace or LineTerminator: TAB, LF, VT, FF, CR, SP, NBSP, U+1680, U+2000 to
  U+200A, LS, PS, U+202F, U+205F, U+3000 and the byte order mark.
\<close>

definition is_ws :: "16 word \<Rightarrow> bool" where
  "is_ws c \<longleftrightarrow>
     c = 0x09 \<or> c = 0x0A \<or> c = 0x0B \<or> c = 0x0C \<or> c = 0x0D \<or> c = 0x20 \<or>
     c = 0xA0 \<or> c = 0x1680 \<or> (0x2000 \<le> c \<and> c \<le> 0x200A) \<or>
     c = 0x2028 \<or> c = 0x2029 \<or> c = 0x202F \<or> c = 0x205F \<or> c = 0x3000 \<or>
     c = 0xFEFF"

definition trim :: "jsstring \<Rightarrow> jsstring" where
  "trim s = rev (dropWhile is_ws (rev (dropWhile is_ws s)))"

subsection \<open>Component state and props\<close>

datatype note_type = general | symptoms | diagnosis | prescription | follow_up

text \<open>
  The five \<^verbatim>\<open>useState\<close> cells. The rows of \<open>savedNotes\<close> are whatever the store
  returns (\<^verbatim>\<open>any\<close> in the source), hence the type parameter.
\<close>

record 'd recorder =
  currentTranscript :: jsstring
  savedNotes :: "'d list"
  saving :: bool
  noteType :: note_type
  showSuccess :: bool

definition initial :: "'d recorder" where
  "initial = \<lparr>currentTranscript = [], savedNotes = [], saving = False,
              noteType = general, showSuccess = False\<rparr>"

text \<open>
  The props. The optional callback \<open>onNoteSaved\<close> is \<open>None\<close> when the caller did not
  supply it. A supplied callback is represented by what its call at line 95 does: it
  returns, or it throws. Like the answers of the store, this outcome is a parameter
  of the invocation.
\<close>

datatype 'e outcome = Returns | Throws 'e

record 'e props =
  consultationId :: jsstring
  doctorId :: jsstring
  onNoteSaved :: "'e outcome option"

subsection \<open>The recognition hook\<close>

text \<open>
  Modelled from the spec: the hook \<^verbatim>\<open>useVoiceRecognition\<close> lives in
  \<^verbatim>\<open>../hooks/useVoiceRecognition\<close>, which is not among the sources. Section 4.1 of
  the specification gives its contract: the exposed state (listening, supported,
  cumulative final transcript, interim transcript, last error) and three operations;
  \<open>start\<close> begins listening and is idempotent if already listening, \<open>stop\<close> ends
  listening and is idempotent if not listening, \<open>reset\<close> clears both transcripts and
  does not affect the listening state.
\<close>

record adapter =
  isListening :: bool
  isSupported :: bool
  transcript :: jsstring
  interimTranscript :: jsstring
  lastError :: "jsstring option"

definition startListening :: "adapter \<Rightarrow> adapter" where
  "startListening ad = ad\<lparr>isListening := True\<rparr>"

definition stopListening :: "adapter \<Rightarrow> adapter" where
  "stopListening ad = ad\<lparr>isListening := False\<rparr>"

definition resetTranscript :: "adapter \<Rightarrow> adapter" where
  "resetTranscript ad = ad\<lparr>transcript := [], interimTranscript := []\<rparr>"

datatype adapter_op = StartListening | StopListening | ResetTranscript

fun perform :: "adapter_op \<Rightarrow> adapter \<Rightarrow> adapter" where
  "perform StartListening ad = startListening ad"
| "perform StopListening ad = stopListening ad"
| "perform ResetTranscript ad = resetTranscript ad"

subsection \<open>The remote store and the effects of a handler\<close>

text \<open>
  The two objects handed to \<^verbatim>\<open>insert\<close>, field by field. The confidence score is the
  literal \<^verbatim>\<open>0.95\<close>, which is only passed on and never computed with.
\<close>

record consultation_note =
  consultation_id :: jsstring
  doctor_id :: jsstring
  note_type :: note_type
  content :: jsstring
  is_voice_generated :: bool
  voice_confidence_score :: real

record voice_transcription =
  vt_consultation_id :: jsstring
  vt_doctor_id :: jsstring
  transcribed_text :: jsstring
  confidence_score :: real
  language_code :: jsstring
  processing_status :: jsstring

text \<open>
  An awaited request either fulfils with the client's \<^verbatim>\<open>{ data, error }\<close> object, in
  which \<open>error\<close> is null (\<open>None\<close>) on success, or rejects, which \<^verbatim>\<open>await\<close> turns
  into a thrown exception. The store's answers are parameters of \<open>saveNote\<close>.
\<close>

record ('d, 'e) response =
  data :: 'd
  error :: "'e option"

datatype ('d, 'e) settled = Fulfilled "('d, 'e) response" | RejectedWith 'e

record ('d, 'e) store =
  note_insert :: "('d, 'e) settled"
  transcription_insert :: "('d, 'e) settled"

datatype timer_action = HideSuccess

datatype ('d, 'e) effect =
    Alert jsstring
  | ConsoleError jsstring 'e
  | InsertNote consultation_note
  | InsertTranscription voice_transcription
  | Adapter adapter_op
  | OnNoteSaved 'd
  | SetTimeout timer_action nat

fun is_write :: "('d, 'e) effect \<Rightarrow> bool" where
  "is_write (InsertNote _) = True"
| "is_write (InsertTranscription _) = True"
| "is_write _ = False"

definition writes :: "('d, 'e) effect list \<Rightarrow> ('d, 'e) effect list" where
  "writes effs = filter is_write effs"

subsection \<open>Handlers fed by the hook\<close>

text \<open>The \<^verbatim>\<open>onResult\<close> callback (lines 40 to 44).\<close>

definition onResult :: "jsstring \<Rightarrow> bool \<Rightarrow> 'd recorder \<Rightarrow> 'd recorder" where
  "onResult text isFinal st =
     (if isFinal then st\<lparr>currentTranscript := currentTranscript st @ js '' '' @ text\<rparr>
      else st)"

text \<open>
  The effect on \<^verbatim>\<open>[transcript]\<close> (lines 50 to 54), run with the hook's new
  cumulative transcript.
\<close>

definition onTranscriptChanged :: "jsstring \<Rightarrow> 'd recorder \<Rightarrow> 'd recorder" where
  "onTranscriptChanged t st =
     (if t \<noteq> [] then st\<lparr>currentTranscript := t\<rparr> else st)"

subsection \<open>saveNote\<close>

definition note_record :: "'e props \<Rightarrow> 'd recorder \<Rightarrow> consultation_note" where
  "note_record p st =
     \<lparr>consultation_id = consultationId p,
      doctor_id = doctorId p,
      note_type = noteType st,
      content = trim (currentTranscript st),
      is_voice_generated = True,
      voice_confidence_score = 0.95\<rparr>"

definition transcription_record :: "'e props \<Rightarrow> 'd recorder \<Rightarrow> voice_transcription" where
  "transcription_record p st =
     \<lparr>vt_consultation_id = consultationId p,
      vt_doctor_id = doctorId p,
      transcribed_text = trim (currentTranscript st),
      confidence_score = 0.95,
      language_code = js ''en-US'',
      processing_status = js ''completed''\<rparr>"

text \<open>
  The \<^verbatim>\<open>try\<close> block (lines 63 to 99). The first component of the result is the
  exception that left the block, if any. The \<^verbatim>\<open>throw\<close> of line 77, a rejected
  \<^verbatim>\<open>await\<close> and a callback that throws at line 95 leave it before anything after
  them runs: in the last case the three updates of lines 91 to 93 have been made,
  and lines 98 and 99 have not.
\<close>

definition saveNote_try ::
  "'e props \<Rightarrow> ('d, 'e) store \<Rightarrow> 'd recorder \<Rightarrow> adapter \<Rightarrow>
     'e option \<times> 'd recorder \<times> adapter \<times> ('d, 'e) effect list" where
  "saveNote_try p env st ad =
     (case note_insert env of
        RejectedWith e \<Rightarrow> (Some e, st, ad, [InsertNote (note_record p st)])
      | Fulfilled r \<Rightarrow>
          (case error r of
             Some e \<Rightarrow> (Some e, st, ad, [InsertNote (note_record p st)])
           | None \<Rightarrow>
               (case transcription_insert env of
                  RejectedWith e \<Rightarrow>
                    (Some e, st, ad,
                     [InsertNote (note_record p st),
                      InsertTranscription (transcription_record p st)])
                | Fulfilled _ \<Rightarrow>
                    (case onNoteSaved p of
                       None \<Rightarrow>
                         (None,
                          st\<lparr>savedNotes := data r # savedNotes st,
                             currentTranscript := [],
                             showSuccess := True\<rparr>,
                          resetTranscript ad,
                          [InsertNote (note_record p st),
                           InsertTranscription (transcription_record p st),
                           Adapter ResetTranscript,
                           SetTimeout HideSuccess 3000])
                     | Some (Throws e) \<Rightarrow>
                         (Some e,
                          st\<lparr>savedNotes := data r # savedNotes st,
                             currentTranscript := []\<rparr>,
                          resetTranscript ad,
                          [InsertNote (note_record p st),
                           InsertTranscription (transcription_record p st),
                           Adapter ResetTranscript,
                           OnNoteSaved (data r)])
                     | Some Returns \<Rightarrow>
                         (None,
                          st\<lparr>savedNotes := data r # savedNotes st,
                             currentTranscript := [],
                             showSuccess := True\<rparr>,
                          resetTranscript ad,
                          [InsertNote (note_record p st),
                           InsertTranscription (transcription_record p st),
                           Adapter ResetTranscript,
                           OnNoteSaved (data r),
                           SetTimeout HideSuccess 3000])))))"

text \<open>
  What the call of line 95 throws, and the effect it is: nothing of either when no
  callback was supplied.
\<close>

definition onNoteSaved_thrown :: "'e props \<Rightarrow> 'e option" where
  "onNoteSaved_thrown p =
     (case onNoteSaved p of Some (Throws e) \<Rightarrow> Some e | _ \<Rightarrow> None)"

definition onNoteSaved_call :: "'e props \<Rightarrow> 'd \<Rightarrow> ('d, 'e) effect list" where
  "onNoteSaved_call p d = (case onNoteSaved p of None \<Rightarrow> [] | Some _ \<Rightarrow> [OnNoteSaved d])"

text \<open>
  What line 77 and the first \<^verbatim>\<open>await\<close> throw for a given answer to the note
  insert: the rejection, or the \<open>error\<close> field of the fulfilled answer. \<open>None\<close>
  means that the \<^verbatim>\<open>try\<close> block goes on to the second insert.
\<close>

definition note_insert_thrown :: "('d, 'e) settled \<Rightarrow> 'e option" where
  "note_insert_thrown s = (case s of RejectedWith e \<Rightarrow> Some e | Fulfilled r \<Rightarrow> error r)"

text \<open>The \<^verbatim>\<open>catch\<close> block (lines 101 to 103).\<close>

definition saveNote_catch :: "'e option \<Rightarrow> ('d, 'e) effect list" where
  "saveNote_catch thrown =
     (case thrown of
        None \<Rightarrow> []
      | Some e \<Rightarrow>
          [ConsoleError (js ''Error saving note:'') e,
           Alert (js ''Failed to save note. Please try again.'')])"

text \<open>
  The whole handler (lines 56 to 107): the guard, \<^verbatim>\<open>setSaving(true)\<close>, the
  \<^verbatim>\<open>try\<close> block, the \<^verbatim>\<open>catch\<close> block and the \<^verbatim>\<open>finally\<close> block. One
  invocation is run to its end: no other event of the component is interleaved
  between its two \<^verbatim>\<open>await\<close>s, so the state the closure captured and the state the
  updates apply to are the same.
\<close>

definition saveNote ::
  "'e props \<Rightarrow> ('d, 'e) store \<Rightarrow> 'd recorder \<Rightarrow> adapter \<Rightarrow>
     'd recorder \<times> adapter \<times> ('d, 'e) effect list" where
  "saveNote p env st ad =
     (if trim (currentTranscript st) = [] then
        (st, ad, [Alert (js ''Please record some content before saving.'')])
      else
        (case saveNote_try p env (st\<lparr>saving := True\<rparr>) ad of
           (thrown, st', ad', effs) \<Rightarrow>
             (st'\<lparr>saving := False\<rparr>, ad', effs @ saveNote_catch thrown)))"


subsection \<open>The other handlers\<close>

text \<open>\<^verbatim>\<open>clearTranscript\<close> (lines 109 to 112).\<close>

definition clearTranscript ::
  "'d recorder \<Rightarrow> adapter \<Rightarrow> 'd recorder \<times> adapter \<times> ('d, 'e) effect list" where
  "clearTranscript st ad =
     (st\<lparr>currentTranscript := []\<rparr>, resetTranscript ad, [Adapter ResetTranscript])"

text \<open>
  \<^verbatim>\<open>handleToggleRecording\<close> (lines 114 to 120). The handler reads \<open>isListening\<close> as
  it was rendered and chooses the operation it calls on the hook.
\<close>

definition handleToggleRecording :: "bool \<Rightarrow> adapter_op" where
  "handleToggleRecording listening =
     (if listening then StopListening else StartListening)"

text \<open>The category selector (line 144) and the four quick actions (lines 260 to 299).\<close>

definition setNoteType :: "note_type \<Rightarrow> 'd recorder \<Rightarrow> 'd recorder" where
  "setNoteType c st = st\<lparr>noteType := c\<rparr>"

definition quickAction :: "jsstring \<Rightarrow> note_type \<Rightarrow> 'd recorder \<Rightarrow> 'd recorder" where
  "quickAction snippet c st =
     st\<lparr>currentTranscript := currentTranscript st @ snippet, noteType := c\<rparr>"

definition addSymptoms :: "'d recorder \<Rightarrow> 'd recorder" where
  "addSymptoms = quickAction (js '' Patient presents with '') symptoms"

definition addDiagnosis :: "'d recorder \<Rightarrow> 'd recorder" where
  "addDiagnosis = quickAction (js '' Diagnosis: '') diagnosis"

definition addPrescription :: "'d recorder \<Rightarrow> 'd recorder" where
  "addPrescription = quickAction (js '' Prescribed: '') prescription"

definition addFollowUp :: "'d recorder \<Rightarrow> 'd recorder" where
  "addFollowUp = quickAction (js '' Follow-up in '') follow_up"

section \<open>Properties\<close>

subsection \<open>Helper facts\<close>

lemma dropWhile_all_iff: "(\<forall>x\<in>set (dropWhile P s). P x) \<longleftrightarrow> dropWhile P s = []"
proof
  assume a: "\<forall>x\<in>set (dropWhile P s). P x"
  show "dropWhile P s = []"
  proof (rule ccontr)
    assume n: "dropWhile P s \<noteq> []"
    then have "\<not> P (hd (dropWhile P s))" by (rule hd_dropWhile)
    moreover from n have "hd (dropWhile P s) \<in> set (dropWhile P s)" by simp
    ultimately show False using a by blast
  qed
qed (auto dest: set_dropWhileD)

text \<open>The trimmed string is empty exactly for the empty and the whitespace-only strings.\<close>

lemma trim_empty_iff: "trim s = [] \<longleftrightarrow> (\<forall>c \<in> set s. is_ws c)"
  by (simp add: trim_def dropWhile_all_iff dropWhile_eq_Nil_conv)

lemma saveNote_try_thrown:
  "note_insert_thrown (note_insert env) = Some e \<Longrightarrow>
   saveNote_try p env st ad = (Some e, st, ad, [InsertNote (note_record p st)])"
  by (cases "note_insert env") (simp_all add: saveNote_try_def note_insert_thrown_def)

lemma saveNote_try_inserted:
  "note_insert env = Fulfilled r \<Longrightarrow> error r = None \<Longrightarrow>
   saveNote_try p env st ad =
     (case transcription_insert env of
        RejectedWith e \<Rightarrow>
          (Some e, st, ad,
           [InsertNote (note_record p st), InsertTranscription (transcription_record p st)])
      | Fulfilled _ \<Rightarrow>
          (case onNoteSaved_thrown p of
             None \<Rightarrow>
               (None,
                st\<lparr>savedNotes := data r # savedNotes st, currentTranscript := [],
                   showSuccess := True\<rparr>,
                resetTranscript ad,
                [InsertNote (note_record p st),
                 InsertTranscription (transcription_record p st),
                 Adapter ResetTranscript]
                @ onNoteSaved_call p (data r)
                @ [SetTimeout HideSuccess 3000])
           | Some e \<Rightarrow>
               (Some e,
                st\<lparr>savedNotes := data r # savedNotes st, currentTranscript := []\<rparr>,
                resetTranscript ad,
                [InsertNote (note_record p st),
                 InsertTranscription (transcription_record p st),
                 Adapter ResetTranscript]
                @ onNoteSaved_call p (data r))))"
  by (simp add: saveNote_try_def onNoteSaved_thrown_def onNoteSaved_call_def
      split: settled.splits option.splits outcome.splits)

lemma records_ignore_saving:
  "note_record p (st\<lparr>saving := b\<rparr>) = note_record p st"
  "transcription_record p (st\<lparr>saving := b\<rparr>) = transcription_record p st"
  by (simp_all add: note_record_def transcription_record_def)

subsection \<open>The writes of saveNote\<close>

text \<open>
  Claim C1, as amended. For every buffer whose trimmed content is not empty,
  \<open>saveNote\<close> issues exactly one Consultation Note insert (consultation id, author id,
  the selected category, the trimmed buffer content, voice-origin flag true,
  confidence 0.95) and, when that insert succeeds, exactly one Transcription Log
  insert after it (same ids, same trimmed content, same confidence 0.95, language code
  "en-US", status "completed"), whatever the store answers to the second insert. When
  the note insert fails, the note insert is the only write: as worded for every such
  buffer, the claim does not hold, see the counterexample below.
\<close>

theorem saveNote_writes_in_order:
  assumes "trim (currentTranscript st) \<noteq> []"
  shows "writes (snd (snd (saveNote p env st ad))) =
     InsertNote
       \<lparr>consultation_id = consultationId p, doctor_id = doctorId p,
        note_type = noteType st, content = trim (currentTranscript st),
        is_voice_generated = True, voice_confidence_score = 0.95\<rparr>
     # (if note_insert_thrown (note_insert env) = None then
          [InsertTranscription
             \<lparr>vt_consultation_id = consultationId p, vt_doctor_id = doctorId p,
              transcribed_text = trim (currentTranscript st), confidence_score = 0.95,
              language_code = js ''en-US'', processing_status = js ''completed''\<rparr>]
        else [])"
  using assms
  by (auto simp: saveNote_def saveNote_try_def saveNote_catch_def note_record_def
      transcription_record_def writes_def note_insert_thrown_def
      split: settled.splits option.splits outcome.splits)

theorem saveNote_writes_in_order_witness:
  "trim (js '' hi '') \<noteq> [] \<and>
   writes (snd (snd (saveNote
       \<lparr>consultationId = js ''c1'', doctorId = js ''d1'',
        onNoteSaved = Some Returns\<rparr>
       \<lparr>note_insert = Fulfilled \<lparr>data = (7::nat), error = (None :: nat option)\<rparr>,
        transcription_insert = Fulfilled \<lparr>data = 0, error = None\<rparr>\<rparr>
       (initial\<lparr>currentTranscript := js '' hi '', noteType := symptoms\<rparr>)
       \<lparr>isListening = False, isSupported = True, transcript = [],
        interimTranscript = [], lastError = None\<rparr>))) =
     [InsertNote
        \<lparr>consultation_id = js ''c1'', doctor_id = js ''d1'', note_type = symptoms,
         content = js ''hi'', is_voice_generated = True, voice_confidence_score = 0.95\<rparr>,
      InsertTranscription
        \<lparr>vt_consultation_id = js ''c1'', vt_doctor_id = js ''d1'',
         transcribed_text = js ''hi'', confidence_score = 0.95,
         language_code = js ''en-US'', processing_status = js ''completed''\<rparr>]"
proof -
  have t: "trim (js '' hi '') = js ''hi''"
    by (simp add: trim_def js_def is_ws_def)
  have n: "js ''hi'' \<noteq> []"
    by (simp add: js_def)
  show ?thesis
    using saveNote_writes_in_order
      [where st = "initial\<lparr>currentTranscript := js '' hi '', noteType := symptoms\<rparr>"
         and p = "\<lparr>consultationId = js ''c1'', doctorId = js ''d1'',
        onNoteSaved = Some Returns\<rparr>"
         and env = "\<lparr>note_insert = Fulfilled \<lparr>data = (7::nat), error = (None :: nat option)\<rparr>,
                     transcription_insert = Fulfilled \<lparr>data = 0, error = None\<rparr>\<rparr>"
         and ad = "\<lparr>isListening = False, isSupported = True, transcript = [],
                    interimTranscript = [], lastError = None\<rparr>"]
    by (simp add: t n note_insert_thrown_def)
qed

text \<open>
  The store answers the note insert with an error: the note insert is the only write,
  and no Transcription Log insert follows it.
\<close>

theorem saveNote_writes_counterexample:
  "trim (js ''hi'') \<noteq> [] \<and>
   writes (snd (snd (saveNote
       \<lparr>consultationId = js ''c1'', doctorId = js ''d1'',
        onNoteSaved = Some Returns\<rparr>
       \<lparr>note_insert = Fulfilled \<lparr>data = (0::nat), error = Some (1::nat)\<rparr>,
        transcription_insert = Fulfilled \<lparr>data = 0, error = None\<rparr>\<rparr>
       (initial\<lparr>currentTranscript := js ''hi''\<rparr>)
       \<lparr>isListening = False, isSupported = True, transcript = [],
        interimTranscript = [], lastError = None\<rparr>))) =
     [InsertNote
        \<lparr>consultation_id = js ''c1'', doctor_id = js ''d1'', note_type = general,
         content = js ''hi'', is_voice_generated = True, voice_confidence_score = 0.95\<rparr>]"
proof -
  have t: "trim (js ''hi'') = js ''hi''"
    by (simp add: trim_def js_def is_ws_def)
  have n: "js ''hi'' \<noteq> []"
    by (simp add: js_def)
  show ?thesis
    by (simp add: t n saveNote_def saveNote_try_def saveNote_catch_def note_record_def
        writes_def initial_def)
qed

subsection \<open>The failure paths of saveNote\<close>

text \<open>
  Claim C4. Whenever the note insert of a \<open>saveNote\<close> invocation fails (the request
  rejects, or its answer carries an error), the operation is aborted: the notice
  "Failed to save note. Please try again." is surfaced, no Transcription Log insert is
  issued, and the state afterwards is the state before with \<open>saving\<close> false, so the
  Transcript Buffer, the recent-saves list and the success flag are unchanged and no
  timer for the banner is set.
\<close>

theorem saveNote_note_insert_failure:
  assumes "trim (currentTranscript st) \<noteq> []"
    and "note_insert_thrown (note_insert env) = Some e"
  shows "saveNote p env st ad =
     (st\<lparr>saving := False\<rparr>, ad,
      [InsertNote
         \<lparr>consultation_id = consultationId p, doctor_id = doctorId p,
          note_type = noteType st, content = trim (currentTranscript st),
          is_voice_generated = True, voice_confidence_score = 0.95\<rparr>,
       ConsoleError (js ''Error saving note:'') e,
       Alert (js ''Failed to save note. Please try again.'')])"
  using assms
  by (simp add: saveNote_def saveNote_try_thrown saveNote_catch_def note_record_def)

theorem saveNote_note_insert_failure_witness:
  "trim (js ''hi'') \<noteq> [] \<and>
   saveNote
       \<lparr>consultationId = js ''c1'', doctorId = js ''d1'',
        onNoteSaved = Some Returns\<rparr>
       \<lparr>note_insert = RejectedWith (3::nat),
        transcription_insert = Fulfilled \<lparr>data = (0::nat), error = None\<rparr>\<rparr>
       (initial\<lparr>currentTranscript := js ''hi'', saving := True\<rparr>)
       \<lparr>isListening = False, isSupported = True, transcript = [],
        interimTranscript = js ''he'', lastError = None\<rparr> =
     (initial\<lparr>currentTranscript := js ''hi'', saving := False\<rparr>,
      \<lparr>isListening = False, isSupported = True, transcript = [],
        interimTranscript = js ''he'', lastError = None\<rparr>,
      [InsertNote
         \<lparr>consultation_id = js ''c1'', doctor_id = js ''d1'', note_type = general,
          content = js ''hi'', is_voice_generated = True, voice_confidence_score = 0.95\<rparr>,
       ConsoleError (js ''Error saving note:'') 3,
       Alert (js ''Failed to save note. Please try again.'')])"
proof -
  have t: "trim (js ''hi'') = js ''hi''"
    by (simp add: trim_def js_def is_ws_def)
  have n: "js ''hi'' \<noteq> []"
    by (simp add: js_def)
  show ?thesis
    using saveNote_note_insert_failure
      [where st = "initial\<lparr>currentTranscript := js ''hi'', saving := True\<rparr>"
         and p = "\<lparr>consultationId = js ''c1'', doctorId = js ''d1'',
        onNoteSaved = Some Returns\<rparr>"
         and env = "\<lparr>note_insert = RejectedWith (3::nat),
                     transcription_insert = Fulfilled \<lparr>data = (0::nat), error = None\<rparr>\<rparr>"
         and e = 3
         and ad = "\<lparr>isListening = False, isSupported = True, transcript = [],
        interimTranscript = js ''he'', lastError = None\<rparr>"]
    by (simp add: t n note_insert_thrown_def initial_def)
qed

text \<open>
  Claim C5. For every buffer whose trimmed content is empty (the empty and the
  whitespace-only buffers, see \<open>trim_empty_iff\<close>), \<open>saveNote\<close> issues no write at
  all and leaves the whole component state and the hook as they were; its only effect
  is the blocking notice.
\<close>

theorem saveNote_empty_buffer:
  assumes "trim (currentTranscript st) = []"
  shows "saveNote p env st ad =
           (st, ad, [Alert (js ''Please record some content before saving.'')]) \<and>
         writes (snd (snd (saveNote p env st ad))) = []"
  using assms by (simp add: saveNote_def writes_def)

theorem saveNote_empty_buffer_witness:
  "trim (js ''  '') = [] \<and>
   saveNote
       \<lparr>consultationId = js ''c1'', doctorId = js ''d1'',
        onNoteSaved = Some Returns\<rparr>
       \<lparr>note_insert = Fulfilled \<lparr>data = (7::nat), error = (None :: nat option)\<rparr>,
        transcription_insert = Fulfilled \<lparr>data = 0, error = None\<rparr>\<rparr>
       (initial\<lparr>currentTranscript := js ''  '', noteType := diagnosis\<rparr>)
       \<lparr>isListening = False, isSupported = True, transcript = [],
        interimTranscript = js ''he'', lastError = None\<rparr> =
     (initial\<lparr>currentTranscript := js ''  '', noteType := diagnosis\<rparr>,
      \<lparr>isListening = False, isSupported = True, transcript = [],
        interimTranscript = js ''he'', lastError = None\<rparr>,
      [Alert (js ''Please record some content before saving.'')])"
proof -
  have t: "trim (js ''  '') = []"
    by (simp add: trim_def js_def is_ws_def)
  show ?thesis
    using saveNote_empty_buffer
      [where st = "initial\<lparr>currentTranscript := js ''  '', noteType := diagnosis\<rparr>"
         and p = "\<lparr>consultationId = js ''c1'', doctorId = js ''d1'',
        onNoteSaved = Some Returns\<rparr>"
         and env = "\<lparr>note_insert = Fulfilled \<lparr>data = (7::nat), error = (None :: nat option)\<rparr>,
                     transcription_insert = Fulfilled \<lparr>data = 0, error = None\<rparr>\<rparr>"
         and ad = "\<lparr>isListening = False, isSupported = True, transcript = [],
        interimTranscript = js ''he'', lastError = None\<rparr>"]
    by (simp add: t)
qed

text \<open>
  Claim C3, as amended. In every \<open>saveNote\<close> invocation whose note insert succeeds,
  a Transcription Log insert that fulfils is never inspected: whether or not its
  answer carries an error, the failure is not surfaced and the component goes on
  exactly as it does when the second insert succeeds. The note is prepended to the
  recent-saves list, the buffer is cleared, the hook is reset and the callback is
  invoked when supplied; when no callback was supplied or it returns, the success
  banner is shown and its timer set, and when the callback throws, the \<^verbatim>\<open>catch\<close>
  block surfaces the failure notice and no banner is shown. A Transcription Log
  insert that rejects is caught by the \<^verbatim>\<open>catch\<close> block as well: the notice
  "Failed to save note. Please try again." is surfaced and the state is left as it
  was, with \<open>saving\<close> false. In no case is any further request sent to the store, so
  the note insert is not rolled back. As worded for every failure of the second
  insert, the claim does not hold, see the counterexample below.
\<close>

theorem saveNote_transcription_failure:
  assumes "trim (currentTranscript st) \<noteq> []"
    and "note_insert env = Fulfilled r" and "error r = None"
  shows "saveNote p env st ad =
    (case transcription_insert env of
       Fulfilled r2 \<Rightarrow>
         (case onNoteSaved_thrown p of
            None \<Rightarrow>
              (st\<lparr>savedNotes := data r # savedNotes st, currentTranscript := [],
                  showSuccess := True, saving := False\<rparr>,
               resetTranscript ad,
               [InsertNote (note_record p st),
                InsertTranscription (transcription_record p st),
                Adapter ResetTranscript]
               @ onNoteSaved_call p (data r)
               @ [SetTimeout HideSuccess 3000])
          | Some e \<Rightarrow>
              (st\<lparr>savedNotes := data r # savedNotes st, currentTranscript := [],
                  saving := False\<rparr>,
               resetTranscript ad,
               [InsertNote (note_record p st),
                InsertTranscription (transcription_record p st),
                Adapter ResetTranscript]
               @ onNoteSaved_call p (data r)
               @ [ConsoleError (js ''Error saving note:'') e,
                  Alert (js ''Failed to save note. Please try again.'')]))
     | RejectedWith e \<Rightarrow>
         (st\<lparr>saving := False\<rparr>, ad,
          [InsertNote (note_record p st), InsertTranscription (transcription_record p st),
           ConsoleError (js ''Error saving note:'') e,
           Alert (js ''Failed to save note. Please try again.'')]))"
  using assms
  by (simp add: saveNote_def saveNote_try_inserted saveNote_catch_def records_ignore_saving
      split: settled.splits option.splits)

theorem saveNote_transcription_failure_witness:
  "trim (js ''hi'') \<noteq> [] \<and>
   saveNote
       \<lparr>consultationId = js ''c1'', doctorId = js ''d1'',
        onNoteSaved = Some Returns\<rparr>
       \<lparr>note_insert = Fulfilled \<lparr>data = (7::nat), error = None\<rparr>,
        transcription_insert = Fulfilled \<lparr>data = 0, error = Some (4::nat)\<rparr>\<rparr>
       (initial\<lparr>currentTranscript := js ''hi''\<rparr>)
       \<lparr>isListening = False, isSupported = True, transcript = [],
        interimTranscript = js ''he'', lastError = None\<rparr> =
     (initial\<lparr>savedNotes := [7], showSuccess := True\<rparr>,
      \<lparr>isListening = False, isSupported = True, transcript = [],
        interimTranscript = [], lastError = None\<rparr>,
      [InsertNote
         \<lparr>consultation_id = js ''c1'', doctor_id = js ''d1'', note_type = general,
          content = js ''hi'', is_voice_generated = True, voice_confidence_score = 0.95\<rparr>,
       InsertTranscription
         \<lparr>vt_consultation_id = js ''c1'', vt_doctor_id = js ''d1'',
          transcribed_text = js ''hi'', confidence_score = 0.95,
          language_code = js ''en-US'', processing_status = js ''completed''\<rparr>,
       Adapter ResetTranscript, OnNoteSaved 7, SetTimeout HideSuccess 3000])"
proof -
  have t: "trim (js ''hi'') = js ''hi''"
    by (simp add: trim_def js_def is_ws_def)
  have n: "js ''hi'' \<noteq> []"
    by (simp add: js_def)
  show ?thesis
    using saveNote_transcription_failure
      [where st = "initial\<lparr>currentTranscript := js ''hi''\<rparr>"
         and p = "\<lparr>consultationId = js ''c1'', doctorId = js ''d1'',
        onNoteSaved = Some Returns\<rparr>"
         and env = "\<lparr>note_insert = Fulfilled \<lparr>data = (7::nat), error = None\<rparr>,
                     transcription_insert = Fulfilled \<lparr>data = 0, error = Some (4::nat)\<rparr>\<rparr>"
         and r = "\<lparr>data = (7::nat), error = None\<rparr>"
         and ad = "\<lparr>isListening = False, isSupported = True, transcript = [],
        interimTranscript = js ''he'', lastError = None\<rparr>"]
    by (simp add: t n initial_def resetTranscript_def note_record_def
        transcription_record_def onNoteSaved_thrown_def onNoteSaved_call_def)
qed

text \<open>
  The note insert succeeds and the Transcription Log insert rejects: the failure
  notice is surfaced, the buffer is not cleared, the created note is not prepended to
  the recent-saves list, the callback is not invoked and no banner is shown.
\<close>

theorem saveNote_transcription_rejected_counterexample:
  "saveNote
       \<lparr>consultationId = js ''c1'', doctorId = js ''d1'',
        onNoteSaved = Some Returns\<rparr>
       \<lparr>note_insert = Fulfilled \<lparr>data = (7::nat), error = None\<rparr>,
        transcription_insert = RejectedWith (4::nat)\<rparr>
       (initial\<lparr>currentTranscript := js ''hi''\<rparr>)
       \<lparr>isListening = False, isSupported = True, transcript = [],
        interimTranscript = js ''he'', lastError = None\<rparr> =
     (initial\<lparr>currentTranscript := js ''hi''\<rparr>,
      \<lparr>isListening = False, isSupported = True, transcript = [],
        interimTranscript = js ''he'', lastError = None\<rparr>,
      [InsertNote
         \<lparr>consultation_id = js ''c1'', doctor_id = js ''d1'', note_type = general,
          content = js ''hi'', is_voice_generated = True, voice_confidence_score = 0.95\<rparr>,
       InsertTranscription
         \<lparr>vt_consultation_id = js ''c1'', vt_doctor_id = js ''d1'',
          transcribed_text = js ''hi'', confidence_score = 0.95,
          language_code = js ''en-US'', processing_status = js ''completed''\<rparr>,
       ConsoleError (js ''Error saving note:'') 4,
       Alert (js ''Failed to save note. Please try again.'')])"
proof -
  have t: "trim (js ''hi'') = js ''hi''"
    by (simp add: trim_def js_def is_ws_def)
  have n: "js ''hi'' \<noteq> []"
    by (simp add: js_def)
  show ?thesis
    by (simp add: t n saveNote_def saveNote_try_def saveNote_catch_def note_record_def
        transcription_record_def initial_def)
qed

subsection \<open>The successful save\<close>




subsection \<open>The hook's transcript and the buffer\<close>

text \<open>
  Claim C2, as amended. For every non-empty cumulative transcript \<open>t\<close> of the hook and
  every prior buffer content, when the hook's transcript changes to \<open>t\<close> the
  Transcript Buffer is replaced wholesale: afterwards it equals \<open>t\<close> exactly, whatever
  manual edits it held, and nothing else of the state changes. For the empty
  transcript the claim does not hold, see the counterexample below.
\<close>

theorem onTranscriptChanged_overwrites:
  assumes "t \<noteq> []"
  shows "onTranscriptChanged t st = st\<lparr>currentTranscript := t\<rparr> \<and>
         currentTranscript (onTranscriptChanged t st) = t"
  using assms by (simp add: onTranscriptChanged_def)

theorem onTranscriptChanged_overwrites_witness:
  "js ''hello'' \<noteq> [] \<and>
   currentTranscript
     (onTranscriptChanged (js ''hello'')
        ((initial :: nat recorder)\<lparr>currentTranscript := js ''edited by hand''\<rparr>)) =
     js ''hello''"
proof -
  have n: "js ''hello'' \<noteq> []"
    by (simp add: js_def)
  show ?thesis
    using n onTranscriptChanged_overwrites
      [OF n, of "(initial :: nat recorder)\<lparr>currentTranscript := js ''edited by hand''\<rparr>"]
    by simp
qed

text \<open>
  The hook's transcript changes to the empty string while the buffer holds an edit:
  the buffer afterwards is the edit, not the empty snapshot.
\<close>

theorem onTranscriptChanged_empty_counterexample:
  "currentTranscript
     (onTranscriptChanged []
        ((initial :: nat recorder)\<lparr>currentTranscript := js ''edited by hand''\<rparr>)) =
     js ''edited by hand'' \<and>
   js ''edited by hand'' \<noteq> []"
  by (simp add: onTranscriptChanged_def js_def)

text \<open>
  Claim C9. For every buffer content, when the hook's cumulative transcript changes to
  the empty string the Transcript Buffer is not overwritten and is afterwards what it
  was (as is the rest of the state): the wholesale overwrite is applied only for
  non-empty snapshots.
\<close>

theorem onTranscriptChanged_empty_keeps_buffer:
  "onTranscriptChanged [] st = st \<and>
   currentTranscript (onTranscriptChanged [] st) = currentTranscript st"
  by (simp add: onTranscriptChanged_def)

subsection \<open>Quick actions, clearing and the recording toggle\<close>

text \<open>
  Claim C7. In the state with buffer "Patient reports headache" and category general,
  the quick action "+ Diagnosis" yields the buffer
  "Patient reports headache Diagnosis: " and the category diagnosis, and leaves the
  rest of the state as it was.
\<close>

theorem addDiagnosis_example:
  "addDiagnosis
     \<lparr>currentTranscript = js ''Patient reports headache'', savedNotes = ns,
      saving = s, noteType = general, showSuccess = b\<rparr> =
     \<lparr>currentTranscript = js ''Patient reports headache Diagnosis: '', savedNotes = ns,
      saving = s, noteType = diagnosis, showSuccess = b\<rparr>"
  by (simp add: addDiagnosis_def quickAction_def js_def)

text \<open>
  Claim C10. \<open>clearTranscript\<close> leaves the Note Category, the recent-saves list, the
  saving flag and the success flag unchanged: it only empties the Transcript Buffer and
  invokes the hook's reset.
\<close>

theorem clearTranscript_frame:
  "case clearTranscript st ad of
     (st', ad', effs) \<Rightarrow>
       noteType st' = noteType st \<and> savedNotes st' = savedNotes st \<and>
       saving st' = saving st \<and> showSuccess st' = showSuccess st \<and>
       currentTranscript st' = [] \<and>
       effs = [Adapter ResetTranscript] \<and> ad' = resetTranscript ad"
  by (simp add: clearTranscript_def)

text \<open>
  Claim C8. \<open>handleToggleRecording\<close> calls the hook's stop operation when the
  rendered listening state is true and its start operation when it is false; once the
  hook has performed the operation its listening state is the opposite of the one at
  invocation; and a repeated call from the same render, which finds the hook already
  in the target state, changes nothing.
\<close>

theorem handleToggleRecording_toggles:
  "handleToggleRecording True = StopListening \<and>
   handleToggleRecording False = StartListening \<and>
   isListening (perform (handleToggleRecording (isListening ad)) ad) = (\<not> isListening ad) \<and>
   perform (handleToggleRecording (isListening ad))
     (perform (handleToggleRecording (isListening ad)) ad) =
     perform (handleToggleRecording (isListening ad)) ad"
  by (simp add: handleToggleRecording_def startListening_def stopListening_def)

text \<open>
  A call made after the component has rendered the new listening state is a new
  toggle: it brings the hook back to the listening state it had at first.
\<close>

lemma toggle_after_rerender:
  "isListening
     (perform (handleToggleRecording
                 (isListening (perform (handleToggleRecording (isListening ad)) ad)))
        (perform (handleToggleRecording (isListening ad)) ad)) = isListening ad"
  by (simp add: handleToggleRecording_def startListening_def stopListening_def)

end
